theory Spec2Isabelle
  imports Main
begin

section \<open>The store as the client sees it\<close>

text \<open>
  The client of \<^verbatim>\<open>src/vecs/client.py\<close> talks to PostgreSQL. What it reads is
  the catalog join \<^verbatim>\<open>pg_class pc join pg_attribute pa on pc.oid = pa.attrelid\<close>:
  one row per relation and column, with the five columns its queries mention and the
  type of the column, which they do not mention. \<open>relnamespace\<close> holds the name of the
  schema (the source compares it with \<^verbatim>\<open>'vecs'::regnamespace\<close>), \<open>atttypid\<close> the
  name of the column's type (in PostgreSQL the identifier of that type), and
  \<open>atttypmod\<close> is PostgreSQL's \<^verbatim>\<open>int4\<close> type modifier: the declared width of a
  pgvector column, the precision of a \<^verbatim>\<open>timestamp(p)\<close>, the length plus four of a
  \<^verbatim>\<open>varchar(n)\<close>.
\<close>

record pg_row =
  relname :: string
  relnamespace :: string
  relkind :: char
  attname :: string
  atttypid :: string
  atttypmod :: int

text \<open>A vector-typed column: one of pgvector's type \<^verbatim>\<open>vector\<close>.\<close>

definition vector_typed :: "pg_row \<Rightarrow> bool" where
  "vector_typed r = (atttypid r = ''vector'')"

text \<open>The two statements of the bootstrap.\<close>

datatype stmt =
  CreateSchemaIfNotExists string
| CreateExtensionIfNotExists string

text \<open>
  The state of the store: the schemas and extensions that exist, the statements the
  server refuses for this role (missing privilege, extension not installable), and the
  catalog join.
\<close>

record store =
  schemas :: "string list"
  extensions :: "string list"
  refused :: "stmt list"
  catalog :: "pg_row list"

section \<open>Errors, adapters, clients and collections\<close>

text \<open>
  The exception classes the client raises or lets through: the builtin
  \<^verbatim>\<open>Exception\<close> (raised twice in \<^verbatim>\<open>get_or_create_collection\<close>, with two
  messages), \<^verbatim>\<open>CollectionNotFound\<close> and \<^verbatim>\<open>CollectionAlreadyExists\<close> of
  \<^verbatim>\<open>vecs.exc\<close>, and the error of the database driver. Each carries its message.
\<close>

datatype error =
  Exception string
| CollectionNotFound string
| CollectionAlreadyExists string
| DBAPIError string

text \<open>The class of a raised exception, the message forgotten.\<close>

datatype error_class =
  ExceptionClass
| CollectionNotFoundClass
| CollectionAlreadyExistsClass
| DBAPIErrorClass

fun class_of :: "error \<Rightarrow> error_class" where
  "class_of (Exception _) = ExceptionClass"
| "class_of (CollectionNotFound _) = CollectionNotFoundClass"
| "class_of (CollectionAlreadyExists _) = CollectionAlreadyExistsClass"
| "class_of (DBAPIError _) = DBAPIErrorClass"

fun message :: "error \<Rightarrow> string" where
  "message (Exception m) = m"
| "message (CollectionNotFound m) = m"
| "message (CollectionAlreadyExists m) = m"
| "message (DBAPIError m) = m"

text \<open>
  Modelled from the spec: the class \<^verbatim>\<open>Adapter\<close> of \<^verbatim>\<open>vecs.experimental.adapter\<close>
  is not among the sources. The client reads one attribute of it,
  \<^verbatim>\<open>exported_dimension\<close>, "a declared output dimension (nullable/absent if the
  adapter imposes no fixed width)".
\<close>

record adapter =
  exported_dimension :: "int option"

text \<open>
  The engine of SQLAlchemy is an object of that library. The client creates it from
  the connection string, opens sessions on it and, in \<^verbatim>\<open>disconnect\<close>, calls its
  \<^verbatim>\<open>dispose()\<close>; the model keeps the connection string and whether
  \<^verbatim>\<open>dispose()\<close> has been called. The client owns the engine (\<^verbatim>\<open>self.meta\<close> is
  the constant schema name \<^verbatim>\<open>vecs\<close>, \<^verbatim>\<open>self.Session\<close> is a factory bound to the
  engine) and has no other attribute.
\<close>

record engine =
  url :: string
  disposed :: bool

record client =
  engine :: engine

text \<open>
  The descriptor \<^verbatim>\<open>Collection(name, dimension, client, adapter=None)\<close>: the four
  attributes its constructor stores.
\<close>

record collection =
  name :: string
  dimension :: int
  client :: client
  adapter :: "adapter option"

definition Collection :: "string \<Rightarrow> int \<Rightarrow> client \<Rightarrow> adapter option \<Rightarrow> collection" where
  "Collection nm dimn self adp =
     \<lparr>name = nm, dimension = dimn, client = self, adapter = adp\<rparr>"

section \<open>Sessions, transactions and the bootstrap\<close>

definition create_engine :: "string \<Rightarrow> engine" where
  "create_engine connection_string = \<lparr>url = connection_string, disposed = False\<rparr>"

text \<open>
  One statement of the bootstrap on the store. A refused statement raises the driver's
  error; otherwise \<^verbatim>\<open>create ... if not exists\<close> adds the object when it is absent
  and does nothing when it is there.
\<close>

fun execute :: "stmt \<Rightarrow> store \<Rightarrow> error + store" where
  "execute (CreateSchemaIfNotExists s) db =
     (if CreateSchemaIfNotExists s \<in> set (refused db) then Inl (DBAPIError ''permission denied'')
      else if s \<in> set (schemas db) then Inr db
      else Inr (db\<lparr>schemas := s # schemas db\<rparr>))"
| "execute (CreateExtensionIfNotExists x) db =
     (if CreateExtensionIfNotExists x \<in> set (refused db) then Inl (DBAPIError ''permission denied'')
      else if x \<in> set (extensions db) then Inr db
      else Inr (db\<lparr>extensions := x # extensions db\<rparr>))"

text \<open>
  \<^verbatim>\<open>with sess.begin(): ...\<close> runs its body in one transaction: committed when the
  body returns, rolled back (the store as it was) when the body raises, and the
  exception goes on to the caller.
\<close>

definition begin_transaction :: "(store \<Rightarrow> error + store) \<Rightarrow> store \<Rightarrow> (error + unit) \<times> store" where
  "begin_transaction body db =
     (case body db of
        Inl e \<Rightarrow> (Inl e, db)
      | Inr db' \<Rightarrow> (Inr (), db'))"

text \<open>The body of the transaction in \<^verbatim>\<open>Client.__init__\<close>: two statements in sequence.\<close>

definition bootstrap :: "store \<Rightarrow> error + store" where
  "bootstrap db =
     (case execute (CreateSchemaIfNotExists ''vecs'') db of
        Inl e \<Rightarrow> Inl e
      | Inr db1 \<Rightarrow> execute (CreateExtensionIfNotExists ''vector'') db1)"

text \<open>\<^verbatim>\<open>Client.__init__(connection_string)\<close>: the new client, or the exception.\<close>

definition Client_init :: "string \<Rightarrow> store \<Rightarrow> (error + client) \<times> store" where
  "Client_init connection_string db =
     (case begin_transaction bootstrap db of
        (Inl e, db') \<Rightarrow> (Inl e, db')
      | (Inr _, db') \<Rightarrow> (Inr \<lparr>engine = create_engine connection_string\<rparr>, db'))"

section \<open>The metadata lookup\<close>

text \<open>PostgreSQL's \<^verbatim>\<open>a ^@ b\<close>: the string \<open>a\<close> starts with \<open>b\<close>.\<close>

definition starts_with :: "string \<Rightarrow> string \<Rightarrow> bool" where
  "starts_with a b = (take (length b) a = b)"

text \<open>
  The \<^verbatim>\<open>where\<close> clause that \<^verbatim>\<open>get_or_create_collection\<close> and
  \<^verbatim>\<open>get_collection\<close> share, with \<^verbatim>\<open>:name\<close> bound to \<open>nm\<close>.
\<close>

definition matches :: "string \<Rightarrow> pg_row \<Rightarrow> bool" where
  "matches nm r =
     (relnamespace r = ''vecs''
      \<and> relkind r = CHR ''r''
      \<and> attname r = ''vec''
      \<and> \<not> starts_with (relname r) ''_''
      \<and> relname r = nm)"

text \<open>The query: the selected columns \<^verbatim>\<open>(table_name, embedding_dim)\<close> of the rows that match.\<close>

definition collection_query :: "store \<Rightarrow> string \<Rightarrow> (string \<times> int) list" where
  "collection_query db nm =
     map (\<lambda>r. (relname r, atttypmod r)) (filter (matches nm) (catalog db))"

definition fetchone :: "'a list \<Rightarrow> 'a option" where
  "fetchone rows = (case rows of [] \<Rightarrow> None | r # _ \<Rightarrow> Some r)"

section \<open>The query surface of a collection\<close>

text \<open>
  Modelled from the spec: the module \<^verbatim>\<open>vecs.collection\<close> is not among the sources;
  the client calls its \<^verbatim>\<open>_create\<close>, \<^verbatim>\<open>_drop\<close> and \<^verbatim>\<open>_list_collections\<close>.
  A name "has a physical table" when the managed namespace holds a plain table of
  that name.
\<close>

definition table_exists :: "store \<Rightarrow> string \<Rightarrow> bool" where
  "table_exists db nm =
     (\<exists>r \<in> set (catalog db). relnamespace r = ''vecs'' \<and> relkind r = CHR ''r'' \<and> relname r = nm)"

text \<open>
  Modelled from the spec: \<^verbatim>\<open>Collection._create\<close> is not among the sources. The
  spec: "physically create the table (and its vector-typed column at
  \<^verbatim>\<open>resolved_dimension\<close> width) and return the descriptor", and "create-only fails if the
  table already exists instead of reusing it" with an already-exists error.
\<close>

definition Collection_create :: "collection \<Rightarrow> store \<Rightarrow> (error + collection) \<times> store" where
  "Collection_create self db =
     (if table_exists db (name self)
      then (Inl (CollectionAlreadyExists ''Collection with requested name already exists''), db)
      else (Inr self,
            db\<lparr>catalog := catalog db @
                 [\<lparr>relname = name self, relnamespace = ''vecs'', relkind = CHR ''r'',
                   attname = ''vec'', atttypid = ''vector'', atttypmod = dimension self\<rparr>]\<rparr>))"

text \<open>
  Modelled from the spec: \<^verbatim>\<open>Collection._drop\<close> is not among the sources. The spec:
  "removes the named physical table and any dependent objects; fails with a not-found
  error if no such table exists".
\<close>

definition Collection_drop :: "collection \<Rightarrow> store \<Rightarrow> (error + collection) \<times> store" where
  "Collection_drop self db =
     (if \<not> table_exists db (name self)
      then (Inl (CollectionNotFound ''Collection with requested name not found''), db)
      else (Inr self,
            db\<lparr>catalog := filter (\<lambda>r. \<not> (relnamespace r = ''vecs'' \<and> relname r = name self))
                                  (catalog db)\<rparr>))"

text \<open>
  Modelled from the spec: \<^verbatim>\<open>Collection._list_collections\<close> is not among the sources.
  The spec: "returns every physical table in the managed namespace that carries a
  vector-typed column and whose name does not start with the reserved internal prefix;
  produces one Collection descriptor per match, dimension taken directly from the
  physical column width".
\<close>

definition listed :: "pg_row \<Rightarrow> bool" where
  "listed r =
     (relnamespace r = ''vecs''
      \<and> relkind r = CHR ''r''
      \<and> vector_typed r
      \<and> \<not> starts_with (relname r) ''_'')"

definition Collection_list_collections :: "client \<Rightarrow> store \<Rightarrow> collection list" where
  "Collection_list_collections cl db =
     map (\<lambda>r. Collection (relname r) (atttypmod r) cl None) (filter listed (catalog db))"

section \<open>The client's operations\<close>

text \<open>Python's truth value of an \<^verbatim>\<open>Optional[int]\<close>: \<^verbatim>\<open>None\<close> and \<^verbatim>\<open>0\<close> are false.\<close>

definition truthy :: "int option \<Rightarrow> bool" where
  "truthy x = (case x of None \<Rightarrow> False | Some n \<Rightarrow> n \<noteq> 0)"

text \<open>\<^verbatim>\<open>adapter.exported_dimension if adapter else None\<close>\<close>

definition adapter_dimension :: "adapter option \<Rightarrow> int option" where
  "adapter_dimension adp = (case adp of Some a \<Rightarrow> exported_dimension a | None \<Rightarrow> None)"

text \<open>
  \<^verbatim>\<open>set([x for x in [dimension, collection_dimension, ...] if x is not None])\<close>:
  the set as the list of its distinct elements.
\<close>

definition reported_dimensions :: "int option \<Rightarrow> int option \<Rightarrow> adapter option \<Rightarrow> int list" where
  "reported_dimensions dimn collection_dimension adp =
     remdups (map the (filter (\<lambda>x. x \<noteq> None)
        [dimn, collection_dimension, adapter_dimension adp]))"

text \<open>The local \<^verbatim>\<open>collection_dimension\<close>: the second column of the row fetched, if any.\<close>

definition collection_dimension :: "store \<Rightarrow> string \<Rightarrow> int option" where
  "collection_dimension db nm =
     (case fetchone (collection_query db nm) of
        Some (_, d) \<Rightarrow> Some d
      | None \<Rightarrow> None)"

definition get_or_create_collection ::
  "client \<Rightarrow> store \<Rightarrow> string \<Rightarrow> int option \<Rightarrow> adapter option \<Rightarrow> (error + collection) \<times> store" where
  "get_or_create_collection self db nm dimn adp =
     (let rd = reported_dimensions dimn (collection_dimension db nm) adp in
      if length rd = 0
      then (Inl (Exception ''One of dimension or adapter must provide a dimension''), db)
      else if length rd > 1
      then (Inl (Exception ''Dimensions reported by adapter, dimension, and collection do not match''), db)
      else
        let resolved_dimension = hd rd;
            coll = Collection nm resolved_dimension self adp
        in if truthy (collection_dimension db nm) then (Inr coll, db)
           else Collection_create coll db)"

definition create_collection :: "client \<Rightarrow> store \<Rightarrow> string \<Rightarrow> int \<Rightarrow> (error + collection) \<times> store" where
  "create_collection self db nm dimn = Collection_create (Collection nm dimn self None) db"

definition get_collection :: "client \<Rightarrow> store \<Rightarrow> string \<Rightarrow> (error + collection) \<times> store" where
  "get_collection self db nm =
     (case fetchone (collection_query db nm) of
        None \<Rightarrow> (Inl (CollectionNotFound ''No collection found with requested name''), db)
      | Some (nm', dimn) \<Rightarrow> (Inr (Collection nm' dimn self None), db))"

definition list_collections :: "client \<Rightarrow> store \<Rightarrow> collection list" where
  "list_collections self db = Collection_list_collections self db"

text \<open>
  \<^verbatim>\<open>Collection(name, -1, self)._drop(); return\<close>, first with the method \<^verbatim>\<open>_drop\<close>
  as a parameter \<open>drop_fn\<close>, then with the \<^verbatim>\<open>_drop\<close> modelled above.
\<close>

definition delete_collection_with ::
  "(collection \<Rightarrow> store \<Rightarrow> (error + collection) \<times> store) \<Rightarrow>
   client \<Rightarrow> store \<Rightarrow> string \<Rightarrow> (error + unit) \<times> store" where
  "delete_collection_with drop_fn self db nm =
     (case drop_fn (Collection nm (- 1) self None) db of
        (Inl e, db') \<Rightarrow> (Inl e, db')
      | (Inr _, db') \<Rightarrow> (Inr (), db'))"

definition delete_collection :: "client \<Rightarrow> store \<Rightarrow> string \<Rightarrow> (error + unit) \<times> store" where
  "delete_collection self db nm = delete_collection_with Collection_drop self db nm"

text \<open>
  \<^verbatim>\<open>Engine.dispose()\<close> of SQLAlchemy closes the connections of the pool and gives
  the engine a fresh, empty pool, from which later sessions are served.
  \<^verbatim>\<open>disconnect\<close> calls it and does nothing else, and \<^verbatim>\<open>__exit__\<close> calls
  \<^verbatim>\<open>disconnect\<close>. No operation of the client reads the state of the engine.
\<close>

definition dispose :: "engine \<Rightarrow> engine" where
  "dispose e = e\<lparr>disposed := True\<rparr>"

definition disconnect :: "client \<Rightarrow> client" where
  "disconnect self = self\<lparr>engine := dispose (engine self)\<rparr>"

definition Client_enter :: "client \<Rightarrow> client" where
  "Client_enter self = self"

definition Client_exit :: "client \<Rightarrow> client" where
  "Client_exit self = disconnect self"

text \<open>
  What a caller sees of a result when the client it holds is \<open>cl\<close>: the same error or
  the same descriptor, bound to \<open>cl\<close>, and the same store.
\<close>

definition rebind :: "client \<Rightarrow> (error + collection) \<times> store \<Rightarrow> (error + collection) \<times> store" where
  "rebind cl res = (map_sum id (\<lambda>c. c\<lparr>client := cl\<rparr>) (fst res), snd res)"

section \<open>Stores and clients of the examples\<close>

text \<open>A freshly bootstrapped store with no table, and a client.\<close>

definition store0 :: store where
  "store0 = \<lparr>schemas = [''vecs''], extensions = [''vector''], refused = [], catalog = []\<rparr>"

definition client0 :: client where
  "client0 = \<lparr>engine = create_engine ''postgresql://localhost/db''\<rparr>"

text \<open>
  The catalog row of a plain table of the managed namespace with a column \<^verbatim>\<open>vec\<close> of
  type \<^verbatim>\<open>vector\<close> and width \<open>w\<close>.
\<close>

definition vec_table :: "string \<Rightarrow> int \<Rightarrow> pg_row" where
  "vec_table nm w =
     \<lparr>relname = nm, relnamespace = ''vecs'', relkind = CHR ''r'', attname = ''vec'',
      atttypid = ''vector'', atttypmod = w\<rparr>"

text \<open>A store with an internal table \<^verbatim>\<open>_docs\<close> of width 7 and a table \<^verbatim>\<open>docs\<close> of width \<open>w\<close>.\<close>

definition store_docs :: "int \<Rightarrow> store" where
  "store_docs w = store0\<lparr>catalog := [vec_table ''_docs'' 7, vec_table ''docs'' w]\<rparr>"

text \<open>
  A store whose table \<^verbatim>\<open>docs\<close> was made by
  \<^verbatim>\<open>create table vecs.docs (vec timestamp(0))\<close>: the type modifier of the column is 0.
\<close>

definition store_zero :: store where
  "store_zero = store0\<lparr>catalog :=
     [\<lparr>relname = ''docs'', relnamespace = ''vecs'', relkind = CHR ''r'', attname = ''vec'',
       atttypid = ''timestamp'', atttypmod = 0\<rparr>]\<rparr>"

text \<open>
  A store whose table \<^verbatim>\<open>txt\<close> was made by
  \<^verbatim>\<open>create table vecs.txt (vec varchar(10))\<close>: the type modifier of the column is 14.
\<close>

definition store_txt :: store where
  "store_txt = store0\<lparr>catalog :=
     [\<lparr>relname = ''txt'', relnamespace = ''vecs'', relkind = CHR ''r'', attname = ''vec'',
       atttypid = ''varchar'', atttypmod = 14\<rparr>]\<rparr>"

text \<open>A store before any client was constructed: no schema, no extension, nothing refused.\<close>

definition store_fresh :: store where
  "store_fresh = \<lparr>schemas = [], extensions = [], refused = [], catalog = []\<rparr>"

section \<open>The reported dimensions and the lookup\<close>

lemma set_present:
  "set (map the (filter (\<lambda>x. x \<noteq> None) xs)) = Option.these (set xs)"
  by (auto simp: Option.these_def)

lemma set_reported_dimensions:
  "set (reported_dimensions dimn cd adp) = Option.these {dimn, cd, adapter_dimension adp}"
  unfolding reported_dimensions_def set_remdups set_present by simp

lemma length_reported_dimensions:
  "length (reported_dimensions dimn cd adp) = card (Option.these {dimn, cd, adapter_dimension adp})"
proof -
  have "length (reported_dimensions dimn cd adp) = card (set (reported_dimensions dimn cd adp))"
    unfolding reported_dimensions_def by (simp only: length_remdups_card_conv set_remdups)
  then show ?thesis by (simp only: set_reported_dimensions)
qed



lemma fetchone_matches:
  assumes "fetchone (collection_query db nm) = Some (t, w)"
  shows "t = nm \<and> (\<exists>r \<in> set (catalog db). matches nm r \<and> atttypmod r = w)"
proof -
  from assms obtain rest where "collection_query db nm = (t, w) # rest"
    by (auto simp: fetchone_def split: list.splits)
  then have "(t, w) \<in> set (collection_query db nm)" by simp
  then obtain r where "r \<in> set (catalog db)" "matches nm r" "t = relname r" "w = atttypmod r"
    by (auto simp: collection_query_def)
  then show ?thesis by (auto simp: matches_def)
qed

lemma find_filter: "find P xs = Some r \<Longrightarrow> \<exists>rest. filter P xs = r # rest"
  by (induction xs) (auto split: if_splits)

lemma fetchone_find:
  assumes f: "find (matches nm) (catalog db) = Some r"
  shows "fetchone (collection_query db nm) = Some (nm, atttypmod r)"
proof -
  from find_filter [OF f] obtain rest where "filter (matches nm) (catalog db) = r # rest" ..
  moreover from f have "matches nm r" by (auto simp: find_Some_iff)
  ultimately show ?thesis
    by (simp add: collection_query_def fetchone_def matches_def)
qed

lemma no_table_no_row: "\<not> table_exists db nm \<Longrightarrow> collection_dimension db nm = None"
  by (auto simp: table_exists_def collection_dimension_def collection_query_def fetchone_def
      matches_def filter_empty_conv split: list.splits)

lemma collection_dimension_store0: "collection_dimension store0 nm = None"
  by (simp add: collection_dimension_def collection_query_def fetchone_def store0_def)

lemma find_store_docs:
  "find (matches ''docs'') (catalog (store_docs w)) = Some (vec_table ''docs'' w)"
  by (simp add: store_docs_def store0_def vec_table_def matches_def starts_with_def)

lemma fetchone_store_docs:
  "fetchone (collection_query (store_docs w) ''docs'') = Some (''docs'', w)"
  using fetchone_find [OF find_store_docs, of w] by (simp add: vec_table_def)

lemma fetchone_store_zero:
  "fetchone (collection_query store_zero ''docs'') = Some (''docs'', 0)"
  by (simp add: collection_query_def fetchone_def store_zero_def store0_def matches_def
      starts_with_def)

text \<open>
  What \<^verbatim>\<open>get_or_create_collection\<close> does when the lookup finds a row of width \<open>w\<close> and
  the hints agree with it: the branch is chosen by the truth value of \<open>w\<close>.
\<close>

lemma get_or_create_found:
  assumes cd: "collection_dimension db nm = Some w"
    and one: "length (reported_dimensions dimn (collection_dimension db nm) adp) = 1"
  shows "get_or_create_collection self db nm dimn adp =
           (if w = 0 then Collection_create (Collection nm 0 self adp) db
            else (Inr (Collection nm w self adp), db))"
proof -
  let ?rd = "reported_dimensions dimn (collection_dimension db nm) adp"
  have mem: "w \<in> set ?rd"
    by (simp add: set_reported_dimensions cd in_these_eq)
  from one obtain x where x: "?rd = [x]" by (cases ?rd) auto
  with mem have "x = w" by simp
  with x have rd: "?rd = [w]" by simp
  have t: "truthy (collection_dimension db nm) = (w \<noteq> 0)"
    by (simp add: cd truthy_def)
  show ?thesis
    unfolding get_or_create_collection_def Let_def rd t by simp
qed

section \<open>Resolution: conflicts and missing dimensions\<close>

text \<open>
  C1. Whenever the caller's dimension, the width the lookup finds for the name and the
  adapter's declared dimension, the absent ones left out, hold more than one distinct
  value, \<^verbatim>\<open>get_or_create_collection\<close> raises the exception "Dimensions reported by
  adapter, dimension, and collection do not match" and the store is what it was: no
  table is created or changed.
\<close>

theorem get_or_create_conflict:
  assumes "1 < card (Option.these {dimn, collection_dimension db nm, adapter_dimension adp})"
  shows "get_or_create_collection self db nm dimn adp =
           (Inl (Exception ''Dimensions reported by adapter, dimension, and collection do not match''), db)"
proof -
  let ?rd = "reported_dimensions dimn (collection_dimension db nm) adp"
  from assms have "1 < length ?rd" by (simp only: length_reported_dimensions)
  then show ?thesis by (auto simp add: get_or_create_collection_def Let_def)
qed

theorem get_or_create_conflict_witness:
  "1 < card (Option.these {Some 2, collection_dimension store0 ''docs'',
                           adapter_dimension (Some \<lparr>exported_dimension = Some 3\<rparr>)})
   \<and> get_or_create_collection client0 store0 ''docs'' (Some 2) (Some \<lparr>exported_dimension = Some 3\<rparr>) =
       (Inl (Exception ''Dimensions reported by adapter, dimension, and collection do not match''), store0)"
proof -
  have h: "1 < card (Option.these {Some 2, collection_dimension store0 ''docs'',
                           adapter_dimension (Some \<lparr>exported_dimension = Some 3\<rparr>)})"
    by (simp add: collection_dimension_store0 adapter_dimension_def)
  from get_or_create_conflict [OF h, of client0] h show ?thesis by simp
qed

text \<open>
  C2. With no caller dimension, with no adapter or an adapter that declares no
  dimension, and with no table found for the name, \<^verbatim>\<open>get_or_create_collection\<close>
  raises the exception "One of dimension or adapter must provide a dimension" and the
  store is what it was. (By \<open>no_table_no_row\<close> the lookup finds nothing when the
  namespace has no table of that name.)
\<close>

theorem get_or_create_no_dimension:
  assumes "adapter_dimension adp = None" and "collection_dimension db nm = None"
  shows "get_or_create_collection self db nm None adp =
           (Inl (Exception ''One of dimension or adapter must provide a dimension''), db)"
  using assms by (simp add: get_or_create_collection_def Let_def reported_dimensions_def)

theorem get_or_create_no_dimension_witness:
  "adapter_dimension (Some \<lparr>exported_dimension = None\<rparr>) = None
   \<and> collection_dimension store0 ''docs'' = None
   \<and> get_or_create_collection client0 store0 ''docs'' None (Some \<lparr>exported_dimension = None\<rparr>) =
       (Inl (Exception ''One of dimension or adapter must provide a dimension''), store0)"
proof -
  have a: "adapter_dimension (Some \<lparr>exported_dimension = None\<rparr>) = None"
    by (simp add: adapter_dimension_def)
  from get_or_create_no_dimension
      [where nm = "''docs''" and self = client0 and db = store0, OF a collection_dimension_store0]
    a collection_dimension_store0 [of "''docs''"]
  show ?thesis by simp
qed

section \<open>The legacy lookup\<close>



section \<open>Reuse or create\<close>



section \<open>Idempotence\<close>

text \<open>
  C3. The table \<^verbatim>\<open>docs\<close> exists, the lookup finds it with width 0, and the hint 0
  agrees with it, as does the absence of any hint, so that 0 is the resolved dimension.
  The call does not return the descriptor with the store left alone: it goes on to
  \<^verbatim>\<open>_create\<close>, although the comment above the test says "if the collection already
  exists, return". With the table \<^verbatim>\<open>docs\<close> of width 384 and the hint 384 the same
  call does return the descriptor and leaves the store as it was.
\<close>

theorem get_or_create_zero_width_not_reused:
  "collection_dimension store_zero ''docs'' = Some 0
   \<and> hd (reported_dimensions (Some 0) (collection_dimension store_zero ''docs'') None) = 0
   \<and> get_or_create_collection client0 store_zero ''docs'' (Some 0) None =
       Collection_create (Collection ''docs'' 0 client0 None) store_zero
   \<and> get_or_create_collection client0 store_zero ''docs'' None None =
       Collection_create (Collection ''docs'' 0 client0 None) store_zero
   \<and> get_or_create_collection client0 (store_docs 384) ''docs'' (Some 384) None =
       (Inr (Collection ''docs'' 384 client0 None), store_docs 384)"
proof -
  have cd: "collection_dimension store_zero ''docs'' = Some 0"
    by (simp add: collection_dimension_def fetchone_store_zero)
  have r0: "reported_dimensions (Some 0) (collection_dimension store_zero ''docs'') None = [0]"
    by (simp add: cd reported_dimensions_def adapter_dimension_def)
  have r1: "reported_dimensions None (collection_dimension store_zero ''docs'') None = [0]"
    by (simp add: cd reported_dimensions_def adapter_dimension_def)
  have cd': "collection_dimension (store_docs 384) ''docs'' = Some 384"
    by (simp add: collection_dimension_def fetchone_store_docs)
  have r2: "reported_dimensions (Some 384) (collection_dimension (store_docs 384) ''docs'') None = [384]"
    by (simp add: cd' reported_dimensions_def adapter_dimension_def)
  have a: "get_or_create_collection client0 store_zero ''docs'' (Some 0) None =
       Collection_create (Collection ''docs'' 0 client0 None) store_zero"
    using get_or_create_found [OF cd, of "Some 0" None client0] by (simp add: r0)
  have b: "get_or_create_collection client0 store_zero ''docs'' None None =
       Collection_create (Collection ''docs'' 0 client0 None) store_zero"
    using get_or_create_found [OF cd, of None None client0] by (simp add: r1)
  have c: "get_or_create_collection client0 (store_docs 384) ''docs'' (Some 384) None =
       (Inr (Collection ''docs'' 384 client0 None), store_docs 384)"
    using get_or_create_found [OF cd', of "Some 384" None client0] by (simp add: r2)
  from cd r0 a b c show ?thesis by simp
qed

section \<open>The classes of the errors\<close>

text \<open>
  C4, as amended. The error for a missing dimension and the error for disagreeing
  dimensions are both raised as the builtin \<^verbatim>\<open>Exception\<close>: they have one class and
  differ in their messages only. The error of \<^verbatim>\<open>get_collection\<close> and of
  \<^verbatim>\<open>delete_collection\<close> is a \<^verbatim>\<open>CollectionNotFound\<close>, the error of
  \<^verbatim>\<open>create_collection\<close> is a \<^verbatim>\<open>CollectionAlreadyExists\<close>, and these two classes
  differ from each other and from \<^verbatim>\<open>Exception\<close>.
\<close>

theorem error_classes:
  "(length (reported_dimensions dimn (collection_dimension db nm) adp) = 0 \<longrightarrow>
      fst (get_or_create_collection self db nm dimn adp) =
        Inl (Exception ''One of dimension or adapter must provide a dimension''))
   \<and> (1 < length (reported_dimensions dimn (collection_dimension db nm) adp) \<longrightarrow>
      fst (get_or_create_collection self db nm dimn adp) =
        Inl (Exception ''Dimensions reported by adapter, dimension, and collection do not match''))
   \<and> class_of (Exception ''One of dimension or adapter must provide a dimension'') =
     class_of (Exception ''Dimensions reported by adapter, dimension, and collection do not match'')
   \<and> message (Exception ''One of dimension or adapter must provide a dimension'') \<noteq>
     message (Exception ''Dimensions reported by adapter, dimension, and collection do not match'')
   \<and> (\<forall>e. fst (get_collection self db nm) = Inl e \<longrightarrow> class_of e = CollectionNotFoundClass)
   \<and> (\<forall>e. fst (delete_collection self db nm) = Inl e \<longrightarrow> class_of e = CollectionNotFoundClass)
   \<and> (\<forall>e. fst (create_collection self db nm d) = Inl e \<longrightarrow> class_of e = CollectionAlreadyExistsClass)
   \<and> distinct [ExceptionClass, CollectionNotFoundClass, CollectionAlreadyExistsClass]"
proof (intro conjI allI impI)
  assume "length (reported_dimensions dimn (collection_dimension db nm) adp) = 0"
  then show "fst (get_or_create_collection self db nm dimn adp) =
        Inl (Exception ''One of dimension or adapter must provide a dimension'')"
    by (simp add: get_or_create_collection_def Let_def)
next
  assume "1 < length (reported_dimensions dimn (collection_dimension db nm) adp)"
  then show "fst (get_or_create_collection self db nm dimn adp) =
        Inl (Exception ''Dimensions reported by adapter, dimension, and collection do not match'')"
    by (auto simp add: get_or_create_collection_def Let_def)
next
  fix e assume "fst (get_collection self db nm) = Inl e"
  then show "class_of e = CollectionNotFoundClass"
    by (auto simp: get_collection_def split: option.splits prod.splits)
next
  fix e assume "fst (delete_collection self db nm) = Inl e"
  then show "class_of e = CollectionNotFoundClass"
    by (auto simp: delete_collection_def delete_collection_with_def Collection_drop_def split: if_splits)
next
  fix e assume "fst (create_collection self db nm d) = Inl e"
  then show "class_of e = CollectionAlreadyExistsClass"
    by (auto simp: create_collection_def Collection_create_def split: if_splits)
qed simp_all

theorem error_classes_witness:
  "length (reported_dimensions None (collection_dimension store0 ''docs'') None) = 0
   \<and> fst (get_or_create_collection client0 store0 ''docs'' None None) =
        Inl (Exception ''One of dimension or adapter must provide a dimension'')
   \<and> 1 < length (reported_dimensions (Some 2) (collection_dimension store0 ''docs'')
                  (Some \<lparr>exported_dimension = Some 3\<rparr>))
   \<and> fst (get_or_create_collection client0 store0 ''docs'' (Some 2) (Some \<lparr>exported_dimension = Some 3\<rparr>)) =
        Inl (Exception ''Dimensions reported by adapter, dimension, and collection do not match'')
   \<and> fst (get_collection client0 store0 ''docs'') =
        Inl (CollectionNotFound ''No collection found with requested name'')
   \<and> class_of (CollectionNotFound ''No collection found with requested name'') = CollectionNotFoundClass
   \<and> fst (delete_collection client0 store0 ''docs'') =
        Inl (CollectionNotFound ''Collection with requested name not found'')
   \<and> fst (create_collection client0 (store_docs 384) ''docs'' 384) =
        Inl (CollectionAlreadyExists ''Collection with requested name already exists'')"
proof -
  have a: "length (reported_dimensions None (collection_dimension store0 ''docs'') None) = 0"
    by (simp add: reported_dimensions_def adapter_dimension_def collection_dimension_store0)
  have b: "1 < length (reported_dimensions (Some 2) (collection_dimension store0 ''docs'')
                  (Some \<lparr>exported_dimension = Some 3\<rparr>))"
    by (simp add: reported_dimensions_def adapter_dimension_def collection_dimension_store0)
  have c: "fst (get_collection client0 store0 ''docs'') =
        Inl (CollectionNotFound ''No collection found with requested name'')"
    by (simp add: get_collection_def collection_query_def fetchone_def store0_def)
  have d: "fst (delete_collection client0 store0 ''docs'') =
        Inl (CollectionNotFound ''Collection with requested name not found'')"
    by (simp add: delete_collection_def delete_collection_with_def Collection_drop_def Collection_def
        table_exists_def store0_def)
  have e: "fst (create_collection client0 (store_docs 384) ''docs'' 384) =
        Inl (CollectionAlreadyExists ''Collection with requested name already exists'')"
    by (simp add: create_collection_def Collection_create_def Collection_def table_exists_def
        store_docs_def vec_table_def)
  from error_classes [of None store0 "''docs''" None client0 0] a
  have f: "fst (get_or_create_collection client0 store0 ''docs'' None None) =
        Inl (Exception ''One of dimension or adapter must provide a dimension'')" by blast
  from error_classes [of "Some 2" store0 "''docs''" "Some \<lparr>exported_dimension = Some 3\<rparr>" client0 0] b
  have g: "fst (get_or_create_collection client0 store0 ''docs'' (Some 2) (Some \<lparr>exported_dimension = Some 3\<rparr>)) =
        Inl (Exception ''Dimensions reported by adapter, dimension, and collection do not match'')" by blast
  from a b c d e f g show ?thesis by simp
qed

text \<open>
  C4 as stated fails: on an empty store, the call without any dimension and the call
  with the dimensions 2 and 3 raise errors of the same class.
\<close>

theorem error_classes_counterexample:
  "get_or_create_collection client0 store0 ''docs'' None None =
     (Inl (Exception ''One of dimension or adapter must provide a dimension''), store0)
   \<and> get_or_create_collection client0 store0 ''docs'' (Some 2) (Some \<lparr>exported_dimension = Some 3\<rparr>) =
     (Inl (Exception ''Dimensions reported by adapter, dimension, and collection do not match''), store0)
   \<and> class_of (Exception ''One of dimension or adapter must provide a dimension'') =
     class_of (Exception ''Dimensions reported by adapter, dimension, and collection do not match'')"
  by (simp add: get_or_create_collection_def Let_def reported_dimensions_def adapter_dimension_def
      collection_dimension_store0)

section \<open>Reserved names\<close>

text \<open>
  C5, as amended. Every row the lookup of \<^verbatim>\<open>get_or_create_collection\<close> and \<^verbatim>\<open>get_collection\<close>
  returns carries the requested name, which does not start with the reserved
  underscore, and comes from a catalog row of a plain table (\<open>relkind\<close> \<^verbatim>\<open>r\<close>) of the
  namespace \<^verbatim>\<open>vecs\<close> with a column named \<^verbatim>\<open>vec\<close>, of whatever type, whose type
  modifier is the width returned. And \<^verbatim>\<open>list_collections\<close> returns no descriptor whose name starts
  with the underscore, whatever tables the store holds.
\<close>

theorem lookup_and_list_skip_reserved:
  "(\<forall>row \<in> set (collection_query db nm).
      fst row = nm \<and> \<not> starts_with nm ''_''
      \<and> (\<exists>r \<in> set (catalog db). relname r = nm \<and> relnamespace r = ''vecs''
            \<and> relkind r = CHR ''r'' \<and> attname r = ''vec'' \<and> atttypmod r = snd row))
   \<and> (\<forall>c \<in> set (list_collections self db). \<not> starts_with (name c) ''_'')"
proof (intro conjI ballI)
  fix row assume "row \<in> set (collection_query db nm)"
  then obtain r where r: "r \<in> set (catalog db)" "matches nm r" "row = (relname r, atttypmod r)"
    by (auto simp: collection_query_def)
  from r show "fst row = nm" by (simp add: matches_def)
  from r show "\<not> starts_with nm ''_''" by (auto simp: matches_def)
  from r show "\<exists>r \<in> set (catalog db). relname r = nm \<and> relnamespace r = ''vecs''
            \<and> relkind r = CHR ''r'' \<and> attname r = ''vec'' \<and> atttypmod r = snd row"
    by (auto simp: matches_def)
next
  fix c assume "c \<in> set (list_collections self db)"
  then show "\<not> starts_with (name c) ''_''"
    by (auto simp: list_collections_def Collection_list_collections_def listed_def Collection_def)
qed

theorem lookup_and_list_skip_reserved_witness:
  "collection_query (store_docs 384) ''docs'' = [(''docs'', 384)]
   \<and> collection_query (store_docs 384) ''_docs'' = []
   \<and> list_collections client0 (store_docs 384) = [Collection ''docs'' 384 client0 None]
   \<and> \<not> starts_with ''docs'' ''_''"
proof -
  have a: "collection_query (store_docs 384) ''docs'' = [(''docs'', 384)]"
    by (simp add: collection_query_def store_docs_def store0_def vec_table_def matches_def starts_with_def)
  have b: "list_collections client0 (store_docs 384) = [Collection ''docs'' 384 client0 None]"
    by (simp add: list_collections_def Collection_list_collections_def listed_def vector_typed_def
        store_docs_def store0_def vec_table_def starts_with_def)
  have s: "starts_with ''_docs'' ''_''" by (simp add: starts_with_def)
  from lookup_and_list_skip_reserved [of "store_docs 384" "''_docs''" client0] s
  have c: "collection_query (store_docs 384) ''_docs'' = []"
    by (cases "collection_query (store_docs 384) ''_docs''") auto
  from lookup_and_list_skip_reserved [of "store_docs 384" "''docs''" client0] a b
  have d: "\<not> starts_with ''docs'' ''_''" by simp
  from a b c d show ?thesis by simp
qed

text \<open>
  C5 as stated fails: the table \<^verbatim>\<open>txt\<close> has no vector-typed column, only a column
  \<^verbatim>\<open>vec\<close> of type \<^verbatim>\<open>varchar(10)\<close>, and the lookup matches it, so that
  \<^verbatim>\<open>get_collection\<close> returns a descriptor of dimension 14 for it.
\<close>

theorem lookup_ignores_column_type_counterexample:
  "filter vector_typed (catalog store_txt) = []
   \<and> collection_query store_txt ''txt'' = [(''txt'', 14)]
   \<and> get_collection client0 store_txt ''txt'' = (Inr (Collection ''txt'' 14 client0 None), store_txt)"
  by (simp add: store_txt_def store0_def vector_typed_def collection_query_def matches_def
      starts_with_def get_collection_def fetchone_def)

section \<open>The bootstrap\<close>

lemma bootstrap_Inr:
  assumes "bootstrap db = Inr db'"
  shows "''vecs'' \<in> set (schemas db') \<and> ''vector'' \<in> set (extensions db')
     \<and> catalog db' = catalog db \<and> refused db' = refused db
     \<and> CreateSchemaIfNotExists ''vecs'' \<notin> set (refused db)
     \<and> CreateExtensionIfNotExists ''vector'' \<notin> set (refused db)"
  using assms by (auto simp: bootstrap_def split: if_splits sum.splits)

lemma bootstrap_again:
  assumes "bootstrap db = Inr db'"
  shows "bootstrap db' = Inr db'"
  using bootstrap_Inr [OF assms] by (simp add: bootstrap_def)

text \<open>
  C6. \<^verbatim>\<open>Client.__init__\<close> runs \<^verbatim>\<open>create schema if not exists vecs\<close> and
  \<^verbatim>\<open>create extension if not exists vector\<close> in one transaction. When it returns a
  client, the schema and the extension exist, the catalog is untouched, and constructing
  a client again on the resulting store succeeds and changes nothing. When it raises,
  the store is as it was before, also when the first statement had gone through. It
  returns a client whenever the server refuses neither statement.
\<close>

theorem init_bootstrap:
  "(\<forall>cl db'. Client_init cs db = (Inr cl, db') \<longrightarrow>
       ''vecs'' \<in> set (schemas db') \<and> ''vector'' \<in> set (extensions db')
       \<and> catalog db' = catalog db
       \<and> Client_init cs db' = (Inr cl, db'))
   \<and> (\<forall>e db'. Client_init cs db = (Inl e, db') \<longrightarrow> db' = db)
   \<and> (CreateSchemaIfNotExists ''vecs'' \<notin> set (refused db)
       \<and> CreateExtensionIfNotExists ''vector'' \<notin> set (refused db) \<longrightarrow>
       (\<exists>cl db'. Client_init cs db = (Inr cl, db')))"
proof (intro conjI allI impI)
  fix cl db' assume a: "Client_init cs db = (Inr cl, db')"
  then have b: "bootstrap db = Inr db'" and c: "cl = \<lparr>engine = create_engine cs\<rparr>"
    by (auto simp: Client_init_def begin_transaction_def split: sum.splits)
  from bootstrap_Inr [OF b]
  show "''vecs'' \<in> set (schemas db')" "''vector'' \<in> set (extensions db')" "catalog db' = catalog db"
    by simp_all
  from bootstrap_again [OF b] c show "Client_init cs db' = (Inr cl, db')"
    by (simp add: Client_init_def begin_transaction_def)
next
  fix e db' assume "Client_init cs db = (Inl e, db')"
  then show "db' = db"
    by (auto simp: Client_init_def begin_transaction_def split: sum.splits)
next
  assume "CreateSchemaIfNotExists ''vecs'' \<notin> set (refused db)
       \<and> CreateExtensionIfNotExists ''vector'' \<notin> set (refused db)"
  then show "\<exists>cl db'. Client_init cs db = (Inr cl, db')"
    by (simp add: Client_init_def begin_transaction_def bootstrap_def)
qed

theorem init_bootstrap_witness:
  "Client_init ''postgresql://localhost/db'' store_fresh = (Inr client0, store0)
   \<and> ''vecs'' \<in> set (schemas store0) \<and> ''vector'' \<in> set (extensions store0)
   \<and> Client_init ''postgresql://localhost/db'' store0 = (Inr client0, store0)
   \<and> Client_init ''postgresql://localhost/db''
        (store_fresh\<lparr>refused := [CreateExtensionIfNotExists ''vector'']\<rparr>) =
       (Inl (DBAPIError ''permission denied''),
        store_fresh\<lparr>refused := [CreateExtensionIfNotExists ''vector'']\<rparr>)"
proof -
  have a: "Client_init ''postgresql://localhost/db'' store_fresh = (Inr client0, store0)"
    by (simp add: Client_init_def begin_transaction_def bootstrap_def store_fresh_def store0_def
        client0_def)
  have b: "Client_init ''postgresql://localhost/db''
        (store_fresh\<lparr>refused := [CreateExtensionIfNotExists ''vector'']\<rparr>) =
       (Inl (DBAPIError ''permission denied''),
        store_fresh\<lparr>refused := [CreateExtensionIfNotExists ''vector'']\<rparr>)"
    by (simp add: Client_init_def begin_transaction_def bootstrap_def store_fresh_def)
  from init_bootstrap [of "''postgresql://localhost/db''" store_fresh] a
  have c: "''vecs'' \<in> set (schemas store0) \<and> ''vector'' \<in> set (extensions store0)
    \<and> Client_init ''postgresql://localhost/db'' store0 = (Inr client0, store0)" by blast
  from a b c show ?thesis by simp
qed

section \<open>Disconnecting\<close>

text \<open>
  C8, as amended. \<^verbatim>\<open>disconnect\<close>, and \<^verbatim>\<open>__exit__\<close> through it, disposes of the
  engine's pool and does nothing else, and no operation checks whether that has
  happened: on a disconnected client every operation gives the result it gives on the
  connected one, the descriptors bound to the disconnected client, and the same store.
\<close>

theorem disconnect_keeps_operations:
  "disposed (engine (disconnect self))
   \<and> Client_exit self = disconnect self
   \<and> get_or_create_collection (disconnect self) db nm dimn adp =
       rebind (disconnect self) (get_or_create_collection self db nm dimn adp)
   \<and> get_collection (disconnect self) db nm = rebind (disconnect self) (get_collection self db nm)
   \<and> create_collection (disconnect self) db nm d =
       rebind (disconnect self) (create_collection self db nm d)
   \<and> list_collections (disconnect self) db =
       map (\<lambda>c. c\<lparr>client := disconnect self\<rparr>) (list_collections self db)
   \<and> delete_collection (disconnect self) db nm = delete_collection self db nm"
proof (intro conjI)
  show "disposed (engine (disconnect self))" by (simp add: disconnect_def dispose_def)
  show "Client_exit self = disconnect self" by (simp add: Client_exit_def)
  show "get_or_create_collection (disconnect self) db nm dimn adp =
       rebind (disconnect self) (get_or_create_collection self db nm dimn adp)"
    by (simp add: get_or_create_collection_def Let_def rebind_def Collection_create_def Collection_def)
  show "get_collection (disconnect self) db nm = rebind (disconnect self) (get_collection self db nm)"
    by (simp add: get_collection_def rebind_def Collection_def split: option.splits prod.splits)
  show "create_collection (disconnect self) db nm d =
       rebind (disconnect self) (create_collection self db nm d)"
    by (simp add: create_collection_def rebind_def Collection_create_def Collection_def)
  show "list_collections (disconnect self) db =
       map (\<lambda>c. c\<lparr>client := disconnect self\<rparr>) (list_collections self db)"
    by (simp add: list_collections_def Collection_list_collections_def Collection_def)
  show "delete_collection (disconnect self) db nm = delete_collection self db nm"
    by (simp add: delete_collection_def delete_collection_with_def Collection_drop_def Collection_def)
qed

text \<open>
  C8 as stated fails: after \<^verbatim>\<open>__exit__\<close> or \<^verbatim>\<open>disconnect\<close>, looking up the table
  \<^verbatim>\<open>docs\<close> of width 384 returns its descriptor, not an error.
\<close>

theorem disconnect_fails_fast_counterexample:
  "get_collection (Client_exit client0) (store_docs 384) ''docs'' =
     (Inr (Collection ''docs'' 384 (disconnect client0) None), store_docs 384)
   \<and> get_or_create_collection (disconnect client0) (store_docs 384) ''docs'' (Some 384) None =
     (Inr (Collection ''docs'' 384 (disconnect client0) None), store_docs 384)"
proof -
  have cd: "collection_dimension (store_docs 384) ''docs'' = Some 384"
    by (simp add: collection_dimension_def fetchone_store_docs)
  have one: "length (reported_dimensions (Some 384) (collection_dimension (store_docs 384) ''docs'') None) = 1"
    by (simp add: cd reported_dimensions_def adapter_dimension_def)
  from get_or_create_found [OF cd one]
  show ?thesis
    by (simp add: Client_exit_def get_collection_def fetchone_store_docs)
qed

section \<open>Deleting\<close>

text \<open>
  C9. Whatever the method \<^verbatim>\<open>_drop\<close> does, and whatever the store holds,
  \<^verbatim>\<open>delete_collection\<close> calls it once, on the store as it is, with the descriptor of
  the requested name, the dimension \<open>- 1\<close>, the client and no adapter, and returns its
  error or nothing, with the store it leaves. The dimension handed over is not positive,
  and it is not the width of the table: for the table \<^verbatim>\<open>docs\<close> of any width \<open>w\<close>,
  which the lookup would report as \<open>w\<close>, and a \<^verbatim>\<open>_drop\<close> that raises an exception
  carrying the dimension it was handed, the exception carries \<open>- 1\<close>.
\<close>

theorem delete_uses_sentinel:
  "delete_collection_with drop_fn self db nm =
     (map_sum id (\<lambda>_. ()) (fst (drop_fn \<lparr>name = nm, dimension = - 1, client = self, adapter = None\<rparr> db)),
      snd (drop_fn \<lparr>name = nm, dimension = - 1, client = self, adapter = None\<rparr> db))
   \<and> delete_collection self db nm = delete_collection_with Collection_drop self db nm
   \<and> \<not> 0 < dimension \<lparr>name = nm, dimension = - 1, client = self, adapter = None\<rparr>
   \<and> collection_dimension (store_docs w) ''docs'' = Some w
   \<and> delete_collection_with (\<lambda>c d. (Inl (DBAPIError (if dimension c = - 1 then ''-1'' else ''other'')), d))
         self (store_docs w) ''docs'' = (Inl (DBAPIError ''-1''), store_docs w)"
proof (intro conjI)
  show "delete_collection_with drop_fn self db nm =
     (map_sum id (\<lambda>_. ()) (fst (drop_fn \<lparr>name = nm, dimension = - 1, client = self, adapter = None\<rparr> db)),
      snd (drop_fn \<lparr>name = nm, dimension = - 1, client = self, adapter = None\<rparr> db))"
    by (simp add: delete_collection_with_def Collection_def split: prod.splits sum.splits)
  show "delete_collection self db nm = delete_collection_with Collection_drop self db nm"
    by (simp add: delete_collection_def)
  show "\<not> 0 < dimension \<lparr>name = nm, dimension = - 1, client = self, adapter = None\<rparr>"
    by simp
  show "collection_dimension (store_docs w) ''docs'' = Some w"
    by (simp add: collection_dimension_def fetchone_store_docs)
  show "delete_collection_with (\<lambda>c d. (Inl (DBAPIError (if dimension c = - 1 then ''-1'' else ''other'')), d))
         self (store_docs w) ''docs'' = (Inl (DBAPIError ''-1''), store_docs w)"
    by (simp add: delete_collection_with_def Collection_def)
qed

end
